theory Spec2Isabelle
  imports Main
begin

section \<open>Data model\<close>

text \<open>
  A row of the table behind \<open>commentsRepo\<close> (the ORM model \<open>Comment\<close>, whose
  declaration is not part of the sources). Only the columns the controller reads or
  writes are kept. \<open>id_row\<close> is the primary key \<open>id\<close>. The numeric columns hold
  whole numbers; a JavaScript \<open>number\<close> that is \<open>NaN\<close>, infinite or fractional is
  outside the model. \<open>feedbackScore\<close> is the only column the controller computes
  with, and its sums are rounded as doubles (see \<open>vote\<close>).
\<close>

record comment =
  id_row :: string
  title :: string
  body :: string
  location :: string
  capacity :: int
  feedbackScore :: int
  UserId :: string
  createdAt :: int

text \<open>The attributes of the owning user that \<open>getComment\<close> asks the ORM to include.\<close>

record user_names =
  firstName :: string
  lastName :: string
  userName :: string

text \<open>\<open>CommentsUser = Comment & { User: ... }\<close>: a row together with its included user.\<close>

record commentsUser =
  row :: comment
  User :: "user_names option"

text \<open>
  The persistent state. \<open>table\<close> holds the rows of the repository, \<open>users\<close> the
  user table reached through \<open>UserId\<close>, and \<open>associated\<close> the rows the ORM association
  yields for a parent key (used by \<open>getComments\<close> only).
\<close>

record database =
  table :: "comment list"
  users :: "string \<rightharpoonup> user_names"
  associated :: "string \<Rightarrow> comment list"

text \<open>
  The response object \<open>{status, data: {result?, count?, message?}}\<close>. An optional
  property is an \<open>option\<close>. The type of \<open>data\<close> is a parameter: it is
  \<open>'r payload\<close> where the method declares \<open>data\<close> and \<open>'r payload option\<close> where it
  declares \<open>data?\<close>.
\<close>

record 'r payload =
  result :: "'r option"
  count :: "int option"
  message :: "string option"

record 'd response =
  status :: int
  data :: 'd

definition no_payload :: "'r payload" where
  "no_payload = \<lparr>result = None, count = None, message = None\<rparr>"

section \<open>The ORM repository\<close>

text \<open>
  The calls the controller makes on the ORM, on the table as a list of rows. Reads are
  total lookups; \<open>save\<close> may throw and \<open>create\<close> may return no row, because the
  controller has a branch for each of the two.
\<close>

datatype direction = ASC | DESC

record query_options =
  opt_limit :: int
  opt_attributes :: "string list"
  opt_include :: "(string \<times> string list) list"
  opt_order :: "(string \<times> direction) list"
  opt_offset :: int

record query_result =
  found_rows :: "comment list"
  found_count :: int

definition findByPk :: "database \<Rightarrow> string \<Rightarrow> comment option" where
  "findByPk db pk = find (\<lambda>c. id_row c = pk) (table db)"

text \<open>\<open>findOne({ where: { id: postID } })\<close>.\<close>

definition findOne :: "database \<Rightarrow> string \<Rightarrow> comment option" where
  "findOne db postID = find (\<lambda>c. id_row c = postID) (table db)"

text \<open>\<open>instance.destroy()\<close> deletes the row with the instance's primary key.\<close>

definition destroy :: "comment \<Rightarrow> database \<Rightarrow> database" where
  "destroy c db = db\<lparr>table := filter (\<lambda>r. id_row r \<noteq> id_row c) (table db)\<rparr>"

text \<open>
  \<open>instance.save()\<close> writes the instance over the row with its primary key. The flag
  says whether the persistence layer accepts the write; \<open>None\<close> is the exception
  it throws otherwise, and nothing is written then.
\<close>

definition save :: "bool \<Rightarrow> comment \<Rightarrow> database \<Rightarrow> database option" where
  "save persisted c db =
     (if persisted
      then Some (db\<lparr>table := map (\<lambda>r. if id_row r = id_row c then c else r) (table db)\<rparr>)
      else None)"

text \<open>What the database fills in when a row is inserted.\<close>

record assigned =
  new_id :: string
  new_feedbackScore :: int
  new_createdAt :: int

text \<open>
  \<open>repo.create({title, body, location, capacity, UserId})\<close>. The first argument is the
  outcome of the insert: \<open>None\<close> when it returns no row, otherwise the columns the
  database assigned.
\<close>

definition create ::
  "assigned option \<Rightarrow> string \<Rightarrow> string \<Rightarrow> string \<Rightarrow> int \<Rightarrow> string \<Rightarrow> database
   \<Rightarrow> comment option \<times> database" where
  "create inserted t b l c u db =
     (case inserted of
        None \<Rightarrow> (None, db)
      | Some a \<Rightarrow>
          (let post = \<lparr>id_row = new_id a, title = t, body = b, location = l, capacity = c,
                        feedbackScore = new_feedbackScore a, UserId = u,
                        createdAt = new_createdAt a\<rparr>
           in (Some post, db\<lparr>table := table db @ [post]\<rparr>)))"

section \<open>CommentController\<close>

text \<open>The maximum number of results to return.\<close>

definition MAX_RESULTS :: int where
  "MAX_RESULTS = 50"

subsection \<open>getComments\<close>

text \<open>The options object that \<open>getComments\<close> hands to \<open>findByPk\<close>.\<close>

definition getComments_options :: "int \<Rightarrow> int \<Rightarrow> query_options" where
  "getComments_options limit offset =
     \<lparr>opt_limit = (if limit > MAX_RESULTS then MAX_RESULTS else limit),
      opt_attributes = [''id'', ''body''],
      opt_include = [(''Post'', [''id'', ''title'', ''body'', ''createdAt''])],
      opt_order = [(''createdAt'', DESC)],
      opt_offset = offset\<rparr>"

definition apply_order :: "(string \<times> direction) list \<Rightarrow> comment list \<Rightarrow> comment list" where
  "apply_order ord xs =
     (if ord = [(''createdAt'', DESC)] then sort_key (\<lambda>c. - createdAt c) xs
      else if ord = [(''createdAt'', ASC)] then sort_key createdAt xs
      else xs)"

text \<open>Modelled from the spec: the source of \<open>getComments\<close> reads \<open>data.\<close> with the
  property name missing and \<open>data.count\<close>, so what the query returns is not given by
  the code. The spec has it fetch up to the limit of the associated rows, ordered by
  creation time descending, with the offset applied, and return nothing when the parent
  record is absent. The rows are kept whole (\<open>opt_attributes\<close> narrows the columns
  only); a negative limit or offset selects as 0 does.
\<close>

definition findByPk_options :: "database \<Rightarrow> string \<Rightarrow> query_options \<Rightarrow> query_result option" where
  "findByPk_options db pk opts =
     (case findByPk db pk of
        None \<Rightarrow> None
      | Some parent \<Rightarrow>
          Some \<lparr>found_rows =
                  take (nat (opt_limit opts))
                    (drop (nat (opt_offset opts))
                       (apply_order (opt_order opts) (associated db pk))),
                found_count = int (length (associated db pk))\<rparr>)"

definition getComments ::
  "string \<Rightarrow> int \<Rightarrow> int \<Rightarrow> database \<Rightarrow> (comment list payload) response" where
  "getComments postID limit offset db =
     (case findByPk_options db postID (getComments_options limit offset) of
        None \<Rightarrow>
          \<lparr>status = 404,
           data = no_payload\<lparr>message := Some (''Post '' @ postID @ '' could not be found'')\<rparr>\<rparr>
      | Some data' \<Rightarrow>
          \<lparr>status = 200,
           data = no_payload\<lparr>result := Some (found_rows data'),
                             count := Some (found_count data')\<rparr>\<rparr>)"

subsection \<open>getComment\<close>

text \<open>\<open>findByPk\<close> with the owning user's name attributes included.\<close>

definition findByPk_User :: "database \<Rightarrow> string \<Rightarrow> commentsUser option" where
  "findByPk_User db pk =
     map_option (\<lambda>c. \<lparr>row = c, User = users db (UserId c)\<rparr>) (findByPk db pk)"

definition getComment ::
  "string \<Rightarrow> string \<Rightarrow> database \<Rightarrow> (commentsUser payload) response" where
  "getComment postID userID db =
     (case findByPk_User db postID of
        None \<Rightarrow>
          \<lparr>status = 404,
           data = no_payload\<lparr>message := Some (''Post '' @ postID @ '' could not be found'')\<rparr>\<rparr>
      | Some data' \<Rightarrow>
          \<lparr>status = 200, data = no_payload\<lparr>result := Some data'\<rparr>\<rparr>)"

subsection \<open>getPost\<close>

text \<open>Modelled from the spec: \<open>vote\<close> and \<open>updatePost\<close> call \<open>this.getPost(postID)\<close>, which
  the class in the sources does not define. The spec has \<open>vote\<close> load the post and
  both callers answer 404 when it is not found; the callers read \<open>status\<close>, which is
  200 on success, and \<open>data.result\<close>. So \<open>getPost\<close> is the lookup by primary key with
  the response shape of \<open>getComment\<close>: 404 and a message when the row is absent, 200
  and the row in \<open>data.result\<close> otherwise.
\<close>

definition getPost :: "string \<Rightarrow> database \<Rightarrow> (comment payload) response" where
  "getPost postID db =
     (case findByPk db postID of
        None \<Rightarrow>
          \<lparr>status = 404,
           data = no_payload\<lparr>message := Some (''Post '' @ postID @ '' could not be found'')\<rparr>\<rparr>
      | Some data' \<Rightarrow>
          \<lparr>status = 200, data = no_payload\<lparr>result := Some data'\<rparr>\<rparr>)"

subsection \<open>deletePost\<close>

text \<open>
  The declared \<open>data\<close> of \<open>deletePost\<close> is \<open>{ message?: string }\<close>: its payload has
  no result to hold, hence \<open>unit\<close>.
\<close>

definition deletePost ::
  "string \<Rightarrow> string \<Rightarrow> database \<Rightarrow> (unit payload option) response \<times> database" where
  "deletePost userId postID db =
     (case findOne db postID of
        None \<Rightarrow>
          (\<lparr>status = 404,
            data = Some (no_payload\<lparr>message := Some (''Post '' @ postID @ '' could not be deleted.'')\<rparr>)\<rparr>,
           db)
      | Some result' \<Rightarrow>
          if UserId result' \<noteq> userId
          then (\<lparr>status = 401,
                 data = Some (no_payload\<lparr>message := Some ''Unauthorized to delete the post.''\<rparr>)\<rparr>,
                db)
          else (\<lparr>status = 204, data = None\<rparr>, destroy result' db))"

subsection \<open>vote\<close>

text \<open>
  \<open>feedbackScore\<close> is a JavaScript \<open>number\<close>, an IEEE-754 double, and \<open>+=\<close> rounds the
  exact sum to the nearest double, ties to the even significand. The scores are
  whole numbers, so a score is kept as the integer it denotes, and
  \<open>double_of_int\<close> is that rounding on integers. \<open>ulp m\<close> is the spacing of the
  doubles around \<open>m\<close>: 1 below \<open>2^53 = 9007199254740992\<close>, doubling with every
  further bit. Magnitudes that overflow a double are outside the model; adding 1 or
  -1 to a double never produces one.
\<close>

function ulp :: "nat \<Rightarrow> nat" where
  "ulp m = (if m < 9007199254740992 then 1 else 2 * ulp (m div 2))"
  by pat_completeness auto
termination
  by (relation "measure (\<lambda>m. m)") auto

declare ulp.simps [simp del]

definition round_half_even :: "nat \<Rightarrow> nat" where
  "round_half_even m =
     (let u = ulp m; q = m div u; r = m mod u
      in if 2 * r < u then q * u
         else if u < 2 * r then (q + 1) * u
         else if even q then q * u
         else (q + 1) * u)"

definition double_of_int :: "int \<Rightarrow> int" where
  "double_of_int n = sgn n * int (round_half_even (nat \<bar>n\<bar>))"

text \<open>The response of the \<open>catch\<close> branch of \<open>vote\<close>.\<close>

definition vote_failed :: "string \<Rightarrow> int \<Rightarrow> (comment payload option) response" where
  "vote_failed postID amount =
     \<lparr>status = 400,
      data = Some (no_payload\<lparr>message :=
               Some (''Could not '' @ (if amount = 1 then ''upvote'' else ''report'')
                     @ '' post: '' @ postID)\<rparr>)\<rparr>"

text \<open>
  \<open>amount\<close> has the type \<open>1 | -1\<close> in the source. The flag is the outcome of the
  \<open>save\<close>. Reading \<open>feedbackScore\<close> of an absent \<open>result\<close> throws inside the \<open>try\<close>
  block, so that case ends in the \<open>catch\<close> branch as well.
\<close>

definition vote ::
  "string \<Rightarrow> int \<Rightarrow> bool \<Rightarrow> database \<Rightarrow> (comment payload option) response \<times> database" where
  "vote postID amount persisted db =
     (let data' = getPost postID db in
      if status data' \<noteq> 200
      then (\<lparr>status = status data', data = Some (data data')\<rparr>, db)
      else
        (case result (data data') of
           None \<Rightarrow> (vote_failed postID amount, db)
         | Some r \<Rightarrow>
             (let r' = r\<lparr>feedbackScore := double_of_int (feedbackScore r + amount)\<rparr> in
              case save persisted r' db of
                None \<Rightarrow> (vote_failed postID amount, db)
              | Some db' \<Rightarrow>
                  (\<lparr>status = 204, data = Some (no_payload\<lparr>result := Some r'\<rparr>)\<rparr>, db'))))"

subsection \<open>createPost\<close>

text \<open>\<open>!s\<close> for an optional string: true for \<open>undefined\<close> and for the empty string.\<close>

definition falsy_string :: "string option \<Rightarrow> bool" where
  "falsy_string s = (case s of None \<Rightarrow> True | Some x \<Rightarrow> x = [])"

text \<open>
  The next to last argument is the outcome of the insert (see \<open>create\<close>). The last
  branch of the \<open>case\<close> cannot be reached: the guard before it has excluded it.
\<close>

definition createPost ::
  "string \<Rightarrow> string option \<Rightarrow> string option \<Rightarrow> string option \<Rightarrow> int option
   \<Rightarrow> assigned option \<Rightarrow> database \<Rightarrow> (comment payload) response \<times> database" where
  "createPost userID title_opt body_opt location_opt capacity_opt inserted db =
     (if falsy_string title_opt \<or> falsy_string body_opt \<or> falsy_string location_opt
         \<or> capacity_opt = None
      then (\<lparr>status = 400, data = no_payload\<lparr>message := Some ''Missing fields.''\<rparr>\<rparr>, db)
      else
        (case (title_opt, body_opt, location_opt, capacity_opt) of
           (Some t, Some b, Some l, Some c) \<Rightarrow>
             (case create inserted t b l c userID db of
                (None, db') \<Rightarrow>
                  (\<lparr>status = 500,
                    data = no_payload\<lparr>message := Some ''Could not create the new post''\<rparr>\<rparr>,
                   db')
              | (Some post, db') \<Rightarrow>
                  (\<lparr>status = 200, data = no_payload\<lparr>result := Some post\<rparr>\<rparr>, db'))
         | _ \<Rightarrow>
             (\<lparr>status = 400, data = no_payload\<lparr>message := Some ''Missing fields.''\<rparr>\<rparr>, db)))"

subsection \<open>updatePost\<close>

text \<open>
  \<open>x || d\<close> where \<open>x\<close> is an optional string, and where it is an optional number:
  \<open>undefined\<close>, the empty string and \<open>0\<close> are falsy and give \<open>d\<close>.
\<close>

definition or_string :: "string option \<Rightarrow> string \<Rightarrow> string" where
  "or_string x d = (case x of None \<Rightarrow> d | Some s \<Rightarrow> if s = [] then d else s)"

definition or_number :: "int option \<Rightarrow> int \<Rightarrow> int" where
  "or_number x d = (case x of None \<Rightarrow> d | Some n \<Rightarrow> if n = 0 then d else n)"

definition updatePost ::
  "string \<Rightarrow> string \<Rightarrow> string option \<Rightarrow> string option \<Rightarrow> string option \<Rightarrow> int option
   \<Rightarrow> bool \<Rightarrow> database \<Rightarrow> (comment payload option) response \<times> database" where
  "updatePost currentUserId postID title_opt body_opt location_opt capacity_opt persisted db =
     (case result (data (getPost postID db)) of
        Some post \<Rightarrow>
          if UserId post = currentUserId
          then
            (let post' = post\<lparr>title := or_string title_opt (title post),
                              body := or_string body_opt (body post),
                              location := or_string location_opt (location post),
                              capacity := or_number capacity_opt (capacity post)\<rparr> in
             case save persisted post' db of
               Some db' \<Rightarrow>
                 (\<lparr>status = 200, data = Some (no_payload\<lparr>result := Some post'\<rparr>)\<rparr>, db')
             | None \<Rightarrow>
                 (\<lparr>status = 500,
                   data = Some (no_payload\<lparr>message := Some ''Could not update the post.''\<rparr>)\<rparr>,
                  db))
          else
            (\<lparr>status = 401,
              data = Some (no_payload\<lparr>message := Some ''Not authorized to edit this post.''\<rparr>)\<rparr>,
             db)
      | None \<Rightarrow>
          (\<lparr>status = 404,
            data = Some (no_payload\<lparr>message := Some ''Could not find post.''\<rparr>)\<rparr>,
           db))"

section \<open>Sample data\<close>

definition sample_post :: comment where
  "sample_post =
     \<lparr>id_row = ''p1'', title = ''Picnic'', body = ''Bring food'', location = ''Park'',
      capacity = 5, feedbackScore = 3, UserId = ''alice'', createdAt = 10\<rparr>"

definition sample_reply :: "string \<Rightarrow> int \<Rightarrow> comment" where
  "sample_reply k t =
     \<lparr>id_row = k, title = [], body = ''ok'', location = [], capacity = 0,
      feedbackScore = 0, UserId = ''bob'', createdAt = t\<rparr>"

definition sample_db :: database where
  "sample_db =
     \<lparr>table = [sample_post],
      users = [''alice'' \<mapsto> \<lparr>firstName = ''Alice'', lastName = ''A'', userName = ''alice''\<rparr>],
      associated = (\<lambda>k. if k = ''p1''
                         then [sample_reply ''c1'' 11, sample_reply ''c2'' 13, sample_reply ''c3'' 12]
                         else [])\<rparr>"

definition sample_big_db :: database where
  "sample_big_db = sample_db\<lparr>table := [sample_post\<lparr>feedbackScore := 9007199254740992\<rparr>]\<rparr>"

definition sample_assigned :: assigned where
  "sample_assigned = \<lparr>new_id = ''p2'', new_feedbackScore = 0, new_createdAt = 20\<rparr>"

section \<open>Lookups after a write\<close>

lemma find_map_replace:
  "find (\<lambda>c. id_row c = k) (map (\<lambda>r. if id_row r = id_row p then p else r) xs) =
     (if k = id_row p then map_option (\<lambda>_. p) (find (\<lambda>c. id_row c = k) xs)
      else find (\<lambda>c. id_row c = k) xs)"
  by (induction xs) auto

lemma findByPk_id: "findByPk db k = Some p \<Longrightarrow> id_row p = k"
  by (auto simp: findByPk_def find_Some_iff)

lemma findByPk_save:
  assumes "findByPk db k = Some p" and "id_row q = k"
  shows "save True q db = Some db' \<Longrightarrow> findByPk db' k = Some q"
  using assms by (auto simp: findByPk_def save_def find_map_replace)

lemma findByPk_appended: "findByPk (db\<lparr>table := table db @ [r]\<rparr>) (id_row r) \<noteq> None"
proof -
  have "r \<in> set (table db @ [r])"
    by simp
  then have "find (\<lambda>c. id_row c = id_row r) (table db @ [r]) \<noteq> None"
    unfolding find_None_iff by blast
  then show ?thesis
    by (simp add: findByPk_def)
qed

section \<open>Ownership on deletion\<close>

text \<open>
  Claim C1. For every post and every pair of distinct user ids \<open>A\<close> and \<open>B\<close>: if the
  stored owner of the post is \<open>A\<close>, then \<open>deletePost\<close> called with user id \<open>B\<close>
  returns status 401, and the database afterwards is the database before, so the
  row is still found and none of its fields has changed.
\<close>

theorem deletePost_non_owner_401_row_intact:
  assumes "findOne db postID = Some p" and "UserId p = A" and "A \<noteq> B"
  shows "status (fst (deletePost B postID db)) = 401
         \<and> snd (deletePost B postID db) = db
         \<and> findOne (snd (deletePost B postID db)) postID = Some p"
  using assms by (simp add: deletePost_def)

theorem deletePost_non_owner_401_row_intact_witness:
  "findOne sample_db ''p1'' = Some sample_post \<and> UserId sample_post = ''alice''
   \<and> ''alice'' \<noteq> ''bob''
   \<and> status (fst (deletePost ''bob'' ''p1'' sample_db)) = 401
   \<and> snd (deletePost ''bob'' ''p1'' sample_db) = sample_db
   \<and> findOne (snd (deletePost ''bob'' ''p1'' sample_db)) ''p1'' = Some sample_post"
proof -
  have found: "findOne sample_db ''p1'' = Some sample_post"
    by (simp add: findOne_def sample_db_def sample_post_def)
  have owner: "UserId sample_post = ''alice''"
    by (simp add: sample_post_def)
  have other: "''alice'' \<noteq> ''bob''"
    by simp
  from deletePost_non_owner_401_row_intact [OF found owner other] found owner other
  show ?thesis by simp
qed

section \<open>Validation in createPost\<close>

lemma createPost_missing:
  assumes "falsy_string t \<or> falsy_string b \<or> falsy_string l \<or> c = None"
  shows "createPost u t b l c ins db =
           (\<lparr>status = 400, data = no_payload\<lparr>message := Some ''Missing fields.''\<rparr>\<rparr>, db)"
  using assms by (simp add: createPost_def)

lemma createPost_no_row:
  assumes "t \<noteq> []" and "b \<noteq> []" and "l \<noteq> []"
  shows "createPost u (Some t) (Some b) (Some l) (Some c) None db =
           (\<lparr>status = 500,
             data = no_payload\<lparr>message := Some ''Could not create the new post''\<rparr>\<rparr>, db)"
  using assms by (simp add: createPost_def falsy_string_def create_def)

lemma createPost_row:
  assumes "t \<noteq> []" and "b \<noteq> []" and "l \<noteq> []"
  shows "createPost u (Some t) (Some b) (Some l) (Some c) (Some a) db =
           (\<lparr>status = 200,
             data = no_payload\<lparr>result :=
                      Some \<lparr>id_row = new_id a, title = t, body = b, location = l, capacity = c,
                            feedbackScore = new_feedbackScore a, UserId = u,
                            createdAt = new_createdAt a\<rparr>\<rparr>\<rparr>,
            db\<lparr>table := table db @
                  [\<lparr>id_row = new_id a, title = t, body = b, location = l, capacity = c,
                    feedbackScore = new_feedbackScore a, UserId = u,
                    createdAt = new_createdAt a\<rparr>]\<rparr>)"
  using assms by (simp add: createPost_def falsy_string_def create_def Let_def)

text \<open>
  Claim C2, as stated, at a concrete call: all four fields are supplied and the insert
  would return a row, but the title is the empty string. The answer is 400 and nothing
  is created, neither 500 nor 200.
\<close>

theorem createPost_supplied_empty_title_counterexample:
  "createPost ''alice'' (Some '''') (Some ''Bring food'') (Some ''Park'') (Some 5)
     (Some sample_assigned) sample_db =
     (\<lparr>status = 400, data = no_payload\<lparr>message := Some ''Missing fields.''\<rparr>\<rparr>, sample_db)"
  by (simp add: createPost_def falsy_string_def)

text \<open>
  Claim C2, amended. For every call to \<open>createPost\<close> in which \<open>title\<close>, \<open>body\<close> or
  \<open>location\<close> is absent or the empty string, or \<open>capacity\<close> is absent, the result has
  status 400 with a message, no record in \<open>data.result\<close>, and the database is
  unchanged. When all four are supplied and the three strings are not empty, the
  result is status 500 with the database unchanged if the insert returns no row, and
  otherwise status 200 with the created record in \<open>data.result\<close>; the record carries the
  supplied values and the caller as owner and is the row added to the table.
\<close>

theorem createPost_400_500_200:
  "((t = None \<or> t = Some [] \<or> b = None \<or> b = Some [] \<or> l = None \<or> l = Some [] \<or> c = None)
      \<longrightarrow> status (fst (createPost u t b l c ins db)) = 400
          \<and> message (data (fst (createPost u t b l c ins db))) \<noteq> None
          \<and> result (data (fst (createPost u t b l c ins db))) = None
          \<and> snd (createPost u t b l c ins db) = db)
   \<and> (\<forall>t' b' l' c'. t = Some t' \<and> t' \<noteq> [] \<and> b = Some b' \<and> b' \<noteq> [] \<and> l = Some l' \<and> l' \<noteq> []
          \<and> c = Some c'
      \<longrightarrow> (ins = None
             \<longrightarrow> status (fst (createPost u t b l c ins db)) = 500
               \<and> result (data (fst (createPost u t b l c ins db))) = None
               \<and> snd (createPost u t b l c ins db) = db)
        \<and> (\<forall>a. ins = Some a
             \<longrightarrow> status (fst (createPost u t b l c ins db)) = 200
               \<and> result (data (fst (createPost u t b l c ins db))) =
                   Some \<lparr>id_row = new_id a, title = t', body = b', location = l', capacity = c',
                         feedbackScore = new_feedbackScore a, UserId = u,
                         createdAt = new_createdAt a\<rparr>
               \<and> table (snd (createPost u t b l c ins db)) =
                   table db @
                     [\<lparr>id_row = new_id a, title = t', body = b', location = l', capacity = c',
                       feedbackScore = new_feedbackScore a, UserId = u,
                       createdAt = new_createdAt a\<rparr>]))"
proof (intro conjI impI allI)
  assume "t = None \<or> t = Some [] \<or> b = None \<or> b = Some [] \<or> l = None \<or> l = Some [] \<or> c = None"
  then have missing: "falsy_string t \<or> falsy_string b \<or> falsy_string l \<or> c = None"
    by (auto simp: falsy_string_def)
  note r = createPost_missing [OF missing, of u ins db]
  show "status (fst (createPost u t b l c ins db)) = 400"
    by (simp add: r)
  show "message (data (fst (createPost u t b l c ins db))) \<noteq> None"
    by (simp add: r)
  show "result (data (fst (createPost u t b l c ins db))) = None"
    by (simp add: r no_payload_def)
  show "snd (createPost u t b l c ins db) = db"
    by (simp add: r)
next
  fix t' b' l' c'
  assume s: "t = Some t' \<and> t' \<noteq> [] \<and> b = Some b' \<and> b' \<noteq> [] \<and> l = Some l' \<and> l' \<noteq> [] \<and> c = Some c'"
    and n: "ins = None"
  from s have r: "createPost u t b l c None db =
      (\<lparr>status = 500,
        data = no_payload\<lparr>message := Some ''Could not create the new post''\<rparr>\<rparr>, db)"
    using createPost_no_row [of t' b' l' u c' db] by simp
  show "status (fst (createPost u t b l c ins db)) = 500"
    by (simp add: n r)
  show "result (data (fst (createPost u t b l c ins db))) = None"
    by (simp add: n r no_payload_def)
  show "snd (createPost u t b l c ins db) = db"
    by (simp add: n r)
next
  fix t' b' l' c' a
  assume s: "t = Some t' \<and> t' \<noteq> [] \<and> b = Some b' \<and> b' \<noteq> [] \<and> l = Some l' \<and> l' \<noteq> [] \<and> c = Some c'"
    and i: "ins = Some a"
  from s have r: "createPost u t b l c (Some a) db =
      (\<lparr>status = 200,
        data = no_payload\<lparr>result :=
                 Some \<lparr>id_row = new_id a, title = t', body = b', location = l', capacity = c',
                       feedbackScore = new_feedbackScore a, UserId = u,
                       createdAt = new_createdAt a\<rparr>\<rparr>\<rparr>,
       db\<lparr>table := table db @
             [\<lparr>id_row = new_id a, title = t', body = b', location = l', capacity = c',
               feedbackScore = new_feedbackScore a, UserId = u,
               createdAt = new_createdAt a\<rparr>]\<rparr>)"
    using createPost_row [of t' b' l' u c' a db] by simp
  show "status (fst (createPost u t b l c ins db)) = 200"
    by (simp add: i r)
  show "result (data (fst (createPost u t b l c ins db))) =
          Some \<lparr>id_row = new_id a, title = t', body = b', location = l', capacity = c',
                feedbackScore = new_feedbackScore a, UserId = u,
                createdAt = new_createdAt a\<rparr>"
    by (simp add: i r)
  show "table (snd (createPost u t b l c ins db)) =
          table db @
            [\<lparr>id_row = new_id a, title = t', body = b', location = l', capacity = c',
              feedbackScore = new_feedbackScore a, UserId = u,
              createdAt = new_createdAt a\<rparr>]"
    by (simp add: i r)
qed

theorem createPost_400_500_200_witness:
  "status (fst (createPost ''alice'' None (Some ''Bring food'') (Some ''Park'') (Some 5)
                  (Some sample_assigned) sample_db)) = 400
   \<and> snd (createPost ''alice'' None (Some ''Bring food'') (Some ''Park'') (Some 5)
             (Some sample_assigned) sample_db) = sample_db
   \<and> status (fst (createPost ''alice'' (Some ''Picnic'') (Some ''Bring food'') (Some ''Park'')
                      (Some 5) None sample_db)) = 500
   \<and> status (fst (createPost ''alice'' (Some ''Picnic'') (Some ''Bring food'') (Some ''Park'')
                      (Some 5) (Some sample_assigned) sample_db)) = 200
   \<and> table (snd (createPost ''alice'' (Some ''Picnic'') (Some ''Bring food'') (Some ''Park'')
                     (Some 5) (Some sample_assigned) sample_db)) =
       table sample_db @
         [\<lparr>id_row = new_id sample_assigned, title = ''Picnic'', body = ''Bring food'',
           location = ''Park'', capacity = 5,
           feedbackScore = new_feedbackScore sample_assigned, UserId = ''alice'',
           createdAt = new_createdAt sample_assigned\<rparr>]"
  using
    createPost_400_500_200 [where t = None and b = "Some ''Bring food''" and l = "Some ''Park''"
      and c = "Some 5" and u = "''alice''" and ins = "Some sample_assigned" and db = sample_db]
    createPost_400_500_200 [where t = "Some ''Picnic''" and b = "Some ''Bring food''"
      and l = "Some ''Park''" and c = "Some 5" and u = "''alice''" and ins = None
      and db = sample_db]
    createPost_400_500_200 [where t = "Some ''Picnic''" and b = "Some ''Bring food''"
      and l = "Some ''Park''" and c = "Some 5" and u = "''alice''"
      and ins = "Some sample_assigned" and db = sample_db]
  by simp

text \<open>
  Claim C9. \<open>createPost\<close> treats empty strings as missing but zero capacity as present.
  For every call where \<open>title\<close>, \<open>body\<close> or \<open>location\<close> is the empty string, the result
  is status 400, carries no record, and the database is unchanged. A call with
  capacity 0 and all three strings non-empty does not return 400 and proceeds to create
  the post: when the insert returns a row the result is status 200, \<open>data.result\<close> is
  the new post, with the supplied strings, capacity 0 and the caller as owner, and
  the database afterwards is the database before with exactly that row added to the
  table; when the insert returns no row the result is status 500 and the database is
  unchanged.
\<close>

theorem createPost_empty_string_400_zero_capacity_created:
  "((t = Some [] \<or> b = Some [] \<or> l = Some [])
      \<longrightarrow> status (fst (createPost u t b l c ins db)) = 400
          \<and> result (data (fst (createPost u t b l c ins db))) = None
          \<and> snd (createPost u t b l c ins db) = db)
   \<and> (t' \<noteq> [] \<and> b' \<noteq> [] \<and> l' \<noteq> []
      \<longrightarrow> status (fst (createPost u (Some t') (Some b') (Some l') (Some 0) ins db)) \<noteq> 400
        \<and> (ins = None
             \<longrightarrow> status (fst (createPost u (Some t') (Some b') (Some l') (Some 0) ins db)) = 500
               \<and> result (data (fst (createPost u (Some t') (Some b') (Some l') (Some 0) ins db)))
                   = None
               \<and> snd (createPost u (Some t') (Some b') (Some l') (Some 0) ins db) = db)
        \<and> (\<forall>a. ins = Some a
             \<longrightarrow> status (fst (createPost u (Some t') (Some b') (Some l') (Some 0) ins db)) = 200
               \<and> result (data (fst (createPost u (Some t') (Some b') (Some l') (Some 0) ins db)))
                   = Some \<lparr>id_row = new_id a, title = t', body = b', location = l',
                           capacity = 0, feedbackScore = new_feedbackScore a, UserId = u,
                           createdAt = new_createdAt a\<rparr>
               \<and> snd (createPost u (Some t') (Some b') (Some l') (Some 0) ins db) =
                   db\<lparr>table := table db @
                         [\<lparr>id_row = new_id a, title = t', body = b', location = l',
                           capacity = 0, feedbackScore = new_feedbackScore a, UserId = u,
                           createdAt = new_createdAt a\<rparr>]\<rparr>
               \<and> findByPk (snd (createPost u (Some t') (Some b') (Some l') (Some 0) ins db))
                     (new_id a) \<noteq> None
               \<and> map_option capacity
                   (result (data (fst (createPost u (Some t') (Some b') (Some l') (Some 0) ins db))))
                   = Some 0))"
proof (intro conjI impI allI)
  assume "t = Some [] \<or> b = Some [] \<or> l = Some []"
  then have missing: "falsy_string t \<or> falsy_string b \<or> falsy_string l \<or> c = None"
    by (auto simp: falsy_string_def)
  note r = createPost_missing [OF missing, of u ins db]
  show "status (fst (createPost u t b l c ins db)) = 400"
    by (simp add: r)
  show "result (data (fst (createPost u t b l c ins db))) = None"
    by (simp add: r no_payload_def)
  show "snd (createPost u t b l c ins db) = db"
    by (simp add: r)
next
  assume s: "t' \<noteq> [] \<and> b' \<noteq> [] \<and> l' \<noteq> []"
  show "status (fst (createPost u (Some t') (Some b') (Some l') (Some 0) ins db)) \<noteq> 400"
  proof (cases ins)
    case None
    with s show ?thesis by (simp add: createPost_no_row)
  next
    case (Some a)
    with s show ?thesis by (simp add: createPost_row)
  qed
next
  assume s: "t' \<noteq> [] \<and> b' \<noteq> [] \<and> l' \<noteq> []" and n: "ins = None"
  show "status (fst (createPost u (Some t') (Some b') (Some l') (Some 0) ins db)) = 500"
    using s n by (simp add: createPost_no_row)
  show "result (data (fst (createPost u (Some t') (Some b') (Some l') (Some 0) ins db))) = None"
    using s n by (simp add: createPost_no_row no_payload_def)
  show "snd (createPost u (Some t') (Some b') (Some l') (Some 0) ins db) = db"
    using s n by (simp add: createPost_no_row)
next
  fix a
  assume s: "t' \<noteq> [] \<and> b' \<noteq> [] \<and> l' \<noteq> []" and i: "ins = Some a"
  show "status (fst (createPost u (Some t') (Some b') (Some l') (Some 0) ins db)) = 200"
    using s i by (simp add: createPost_row)
  show "result (data (fst (createPost u (Some t') (Some b') (Some l') (Some 0) ins db))) =
          Some \<lparr>id_row = new_id a, title = t', body = b', location = l',
                capacity = 0, feedbackScore = new_feedbackScore a, UserId = u,
                createdAt = new_createdAt a\<rparr>"
    using s i by (simp add: createPost_row)
  show "snd (createPost u (Some t') (Some b') (Some l') (Some 0) ins db) =
          db\<lparr>table := table db @
                [\<lparr>id_row = new_id a, title = t', body = b', location = l',
                  capacity = 0, feedbackScore = new_feedbackScore a, UserId = u,
                  createdAt = new_createdAt a\<rparr>]\<rparr>"
    using s i by (simp add: createPost_row)
  show "findByPk (snd (createPost u (Some t') (Some b') (Some l') (Some 0) ins db))
          (new_id a) \<noteq> None"
  proof -
    let ?r = "\<lparr>id_row = new_id a, title = t', body = b', location = l',
               capacity = 0, feedbackScore = new_feedbackScore a, UserId = u,
               createdAt = new_createdAt a\<rparr>"
    have "snd (createPost u (Some t') (Some b') (Some l') (Some 0) ins db) =
            db\<lparr>table := table db @ [?r]\<rparr>"
      using s i by (simp add: createPost_row)
    moreover have "id_row ?r = new_id a"
      by simp
    ultimately show ?thesis
      using findByPk_appended [of db ?r] by (simp only:) simp
  qed
  show "map_option capacity
          (result (data (fst (createPost u (Some t') (Some b') (Some l') (Some 0) ins db))))
          = Some 0"
    using s i by (simp add: createPost_row)
qed

theorem createPost_empty_string_400_zero_capacity_created_witness:
  "status (fst (createPost ''alice'' (Some ''Picnic'') (Some '''') (Some ''Park'') (Some 5)
                  (Some sample_assigned) sample_db)) = 400
   \<and> snd (createPost ''alice'' (Some ''Picnic'') (Some '''') (Some ''Park'') (Some 5)
             (Some sample_assigned) sample_db) = sample_db
   \<and> status (fst (createPost ''alice'' (Some ''Picnic'') (Some ''Bring food'') (Some ''Park'')
                      (Some 0) (Some sample_assigned) sample_db)) = 200
   \<and> snd (createPost ''alice'' (Some ''Picnic'') (Some ''Bring food'') (Some ''Park'')
             (Some 0) (Some sample_assigned) sample_db) =
       sample_db\<lparr>table := table sample_db @
         [\<lparr>id_row = new_id sample_assigned, title = ''Picnic'', body = ''Bring food'',
           location = ''Park'', capacity = 0,
           feedbackScore = new_feedbackScore sample_assigned, UserId = ''alice'',
           createdAt = new_createdAt sample_assigned\<rparr>]\<rparr>
   \<and> map_option capacity
       (result (data (fst (createPost ''alice'' (Some ''Picnic'') (Some ''Bring food'')
                             (Some ''Park'') (Some 0) (Some sample_assigned) sample_db))))
       = Some 0
   \<and> status (fst (createPost ''alice'' (Some ''Picnic'') (Some ''Bring food'') (Some ''Park'')
                      (Some 0) None sample_db)) = 500
   \<and> snd (createPost ''alice'' (Some ''Picnic'') (Some ''Bring food'') (Some ''Park'')
             (Some 0) None sample_db) = sample_db"
proof -
  have empty: "Some ''Picnic'' = Some [] \<or> Some [] = Some [] \<or> Some ''Park'' = Some []"
    by simp
  have filled: "''Picnic'' \<noteq> [] \<and> ''Bring food'' \<noteq> [] \<and> ''Park'' \<noteq> []"
    by simp
  note inserted =
    createPost_empty_string_400_zero_capacity_created [where t = "Some ''Picnic''"
      and b = "Some []" and l = "Some ''Park''" and c = "Some 5" and u = "''alice''"
      and ins = "Some sample_assigned" and db = sample_db and t' = "''Picnic''"
      and b' = "''Bring food''" and l' = "''Park''"]
  note refused =
    createPost_empty_string_400_zero_capacity_created [where t = "Some ''Picnic''"
      and b = "Some []" and l = "Some ''Park''" and c = "Some 5" and u = "''alice''"
      and ins = None and db = sample_db and t' = "''Picnic''"
      and b' = "''Bring food''" and l' = "''Park''"]
  from inserted empty have rejected:
    "status (fst (createPost ''alice'' (Some ''Picnic'') (Some []) (Some ''Park'') (Some 5)
                    (Some sample_assigned) sample_db)) = 400
     \<and> snd (createPost ''alice'' (Some ''Picnic'') (Some []) (Some ''Park'') (Some 5)
               (Some sample_assigned) sample_db) = sample_db"
    by blast
  from inserted filled have created:
    "status (fst (createPost ''alice'' (Some ''Picnic'') (Some ''Bring food'') (Some ''Park'')
                    (Some 0) (Some sample_assigned) sample_db)) = 200
     \<and> snd (createPost ''alice'' (Some ''Picnic'') (Some ''Bring food'') (Some ''Park'')
               (Some 0) (Some sample_assigned) sample_db) =
         sample_db\<lparr>table := table sample_db @
           [\<lparr>id_row = new_id sample_assigned, title = ''Picnic'', body = ''Bring food'',
             location = ''Park'', capacity = 0,
             feedbackScore = new_feedbackScore sample_assigned, UserId = ''alice'',
             createdAt = new_createdAt sample_assigned\<rparr>]\<rparr>
     \<and> map_option capacity
         (result (data (fst (createPost ''alice'' (Some ''Picnic'') (Some ''Bring food'')
                               (Some ''Park'') (Some 0) (Some sample_assigned) sample_db))))
         = Some 0"
    by blast
  from refused filled have no_row:
    "status (fst (createPost ''alice'' (Some ''Picnic'') (Some ''Bring food'') (Some ''Park'')
                    (Some 0) None sample_db)) = 500
     \<and> snd (createPost ''alice'' (Some ''Picnic'') (Some ''Bring food'') (Some ''Park'')
               (Some 0) None sample_db) = sample_db"
    by blast
  from rejected created no_row show ?thesis
    by simp
qed

section \<open>Loading a post\<close>

lemma findOne_findByPk: "findOne db k = findByPk db k"
  by (simp add: findOne_def findByPk_def)

lemma getPost_found:
  "findByPk db k = Some p \<Longrightarrow>
     getPost k db = \<lparr>status = 200, data = no_payload\<lparr>result := Some p\<rparr>\<rparr>"
  by (simp add: getPost_def)

lemma getPost_missing:
  "findByPk db k = None \<Longrightarrow>
     getPost k db =
       \<lparr>status = 404,
        data = no_payload\<lparr>message := Some (''Post '' @ k @ '' could not be found'')\<rparr>\<rparr>"
  by (simp add: getPost_def)

section \<open>The branches of updatePost\<close>

lemma updatePost_missing:
  "findByPk db k = None \<Longrightarrow>
     updatePost u k t b l c ok db =
       (\<lparr>status = 404, data = Some (no_payload\<lparr>message := Some ''Could not find post.''\<rparr>)\<rparr>,
        db)"
  by (simp add: updatePost_def getPost_missing no_payload_def)

lemma updatePost_other:
  "findByPk db k = Some p \<Longrightarrow> UserId p \<noteq> u \<Longrightarrow>
     updatePost u k t b l c ok db =
       (\<lparr>status = 401,
         data = Some (no_payload\<lparr>message := Some ''Not authorized to edit this post.''\<rparr>)\<rparr>,
        db)"
  by (simp add: updatePost_def getPost_found)

lemma updatePost_failed:
  "findByPk db k = Some p \<Longrightarrow> UserId p = u \<Longrightarrow>
     updatePost u k t b l c False db =
       (\<lparr>status = 500,
         data = Some (no_payload\<lparr>message := Some ''Could not update the post.''\<rparr>)\<rparr>,
        db)"
  by (simp add: updatePost_def getPost_found save_def)

lemma updatePost_saved:
  assumes "findByPk db k = Some p" and "UserId p = u"
  shows "fst (updatePost u k t b l c True db) =
           \<lparr>status = 200,
            data = Some (no_payload\<lparr>result :=
                     Some (p\<lparr>title := or_string t (title p),
                             body := or_string b (body p),
                             location := or_string l (location p),
                             capacity := or_number c (capacity p)\<rparr>)\<rparr>)\<rparr>"
    and "findByPk (snd (updatePost u k t b l c True db)) k =
           Some (p\<lparr>title := or_string t (title p),
                   body := or_string b (body p),
                   location := or_string l (location p),
                   capacity := or_number c (capacity p)\<rparr>)"
proof -
  let ?q = "p\<lparr>title := or_string t (title p), body := or_string b (body p),
              location := or_string l (location p),
              capacity := or_number c (capacity p)\<rparr>"
  have run: "updatePost u k t b l c True db =
      (\<lparr>status = 200, data = Some (no_payload\<lparr>result := Some ?q\<rparr>)\<rparr>,
       db\<lparr>table := map (\<lambda>r. if id_row r = id_row ?q then ?q else r) (table db)\<rparr>)"
    using assms by (simp add: updatePost_def getPost_found save_def Let_def)
  show "fst (updatePost u k t b l c True db) =
          \<lparr>status = 200, data = Some (no_payload\<lparr>result := Some ?q\<rparr>)\<rparr>"
    by (simp add: run)
  have key: "id_row ?q = k"
    using findByPk_id [OF assms(1)] by simp
  have saved: "save True ?q db =
      Some (db\<lparr>table := map (\<lambda>r. if id_row r = id_row ?q then ?q else r) (table db)\<rparr>)"
    by (simp add: save_def)
  show "findByPk (snd (updatePost u k t b l c True db)) k = Some ?q"
    using findByPk_save [OF assms(1) key saved] by (simp add: run)
qed

section \<open>Non-owners cannot update\<close>

text \<open>
  Claim C10. \<open>updatePost\<close> by a non-owner is atomic: for every existing post whose
  stored owner differs from \<open>currentUserId\<close>, \<open>updatePost\<close> returns status 401 and the
  database afterwards is the database before, so every field of the post is
  unchanged, whichever optional fields were supplied and whatever a save would do.
\<close>

theorem updatePost_non_owner_401_unchanged:
  assumes "findByPk db postID = Some p" and "UserId p \<noteq> currentUserId"
  shows "status (fst (updatePost currentUserId postID t b l c ok db)) = 401
         \<and> snd (updatePost currentUserId postID t b l c ok db) = db
         \<and> findByPk (snd (updatePost currentUserId postID t b l c ok db)) postID = Some p"
  using assms by (simp add: updatePost_other)

theorem updatePost_non_owner_401_unchanged_witness:
  "findByPk sample_db ''p1'' = Some sample_post \<and> UserId sample_post \<noteq> ''bob''
   \<and> status (fst (updatePost ''bob'' ''p1'' (Some ''Mine'') None (Some ''Home'') (Some 9) True
                     sample_db)) = 401
   \<and> snd (updatePost ''bob'' ''p1'' (Some ''Mine'') None (Some ''Home'') (Some 9) True
             sample_db) = sample_db
   \<and> findByPk (snd (updatePost ''bob'' ''p1'' (Some ''Mine'') None (Some ''Home'') (Some 9) True
                       sample_db)) ''p1'' = Some sample_post"
proof -
  have found: "findByPk sample_db ''p1'' = Some sample_post"
    by (simp add: findByPk_def sample_db_def sample_post_def)
  have other: "UserId sample_post \<noteq> ''bob''"
    by (simp add: sample_post_def)
  from updatePost_non_owner_401_unchanged [OF found other] found other
  show ?thesis by simp
qed

section \<open>Merging the supplied fields\<close>

lemma or_string_simps:
  "or_string None d = d"
  "or_string (Some []) d = d"
  "s \<noteq> [] \<Longrightarrow> or_string (Some s) d = s"
  by (simp_all add: or_string_def)

lemma or_number_simps:
  "or_number None d = d"
  "n \<noteq> 0 \<Longrightarrow> or_number (Some n) d = n"
  by (simp_all add: or_number_def)

text \<open>
  Claim C3, as stated, at a concrete call: the owner supplies the empty string as the
  title and the save succeeds. The answer is 200, but the title of the returned record
  is the stored one, not the supplied value.
\<close>

theorem updatePost_empty_title_kept_counterexample:
  "fst (updatePost ''alice'' ''p1'' (Some '''') None None None True sample_db) =
     \<lparr>status = 200, data = Some (no_payload\<lparr>result := Some sample_post\<rparr>)\<rparr>
   \<and> title sample_post = ''Picnic''"
  by (simp add: updatePost_def getPost_def findByPk_def save_def or_string_def or_number_def
      sample_db_def sample_post_def Let_def)

text \<open>
  Claim C3, amended. \<open>updatePost\<close> returns 404 and changes nothing if the post is not
  found, 401 and changes nothing if the post is owned by a different user, and 500
  and changes nothing if the owner calls it and the save throws. When the owner calls
  it and the save succeeds it returns status 200 with a record, which is also the row
  then stored under the post id, in which: each of \<open>title\<close>, \<open>body\<close> and \<open>location\<close>
  equals the supplied value when a non-empty string was supplied, and its prior stored
  value when none or the empty string was supplied; \<open>capacity\<close> equals the supplied
  value when a number other than 0 was supplied and its prior stored value when none
  was supplied; every other field has its prior stored value.
\<close>

theorem updatePost_404_401_500_200_merged:
  "(findByPk db postID = None
      \<longrightarrow> status (fst (updatePost u postID t b l c ok db)) = 404
        \<and> snd (updatePost u postID t b l c ok db) = db)
   \<and> (\<forall>p. findByPk db postID = Some p \<and> UserId p \<noteq> u
      \<longrightarrow> status (fst (updatePost u postID t b l c ok db)) = 401
        \<and> snd (updatePost u postID t b l c ok db) = db)
   \<and> (\<forall>p. findByPk db postID = Some p \<and> UserId p = u \<and> \<not> ok
      \<longrightarrow> status (fst (updatePost u postID t b l c ok db)) = 500
        \<and> snd (updatePost u postID t b l c ok db) = db)
   \<and> (\<forall>p. findByPk db postID = Some p \<and> UserId p = u \<and> ok
      \<longrightarrow> (\<exists>q. fst (updatePost u postID t b l c ok db) =
                 \<lparr>status = 200, data = Some (no_payload\<lparr>result := Some q\<rparr>)\<rparr>
             \<and> findByPk (snd (updatePost u postID t b l c ok db)) postID = Some q
             \<and> (\<forall>s. t = Some s \<and> s \<noteq> [] \<longrightarrow> title q = s)
             \<and> (t = None \<or> t = Some [] \<longrightarrow> title q = title p)
             \<and> (\<forall>s. b = Some s \<and> s \<noteq> [] \<longrightarrow> body q = s)
             \<and> (b = None \<or> b = Some [] \<longrightarrow> body q = body p)
             \<and> (\<forall>s. l = Some s \<and> s \<noteq> [] \<longrightarrow> location q = s)
             \<and> (l = None \<or> l = Some [] \<longrightarrow> location q = location p)
             \<and> (\<forall>n. c = Some n \<and> n \<noteq> 0 \<longrightarrow> capacity q = n)
             \<and> (c = None \<longrightarrow> capacity q = capacity p)
             \<and> id_row q = id_row p \<and> feedbackScore q = feedbackScore p
             \<and> UserId q = UserId p \<and> createdAt q = createdAt p))"
proof (intro conjI allI impI)
  assume "findByPk db postID = None"
  then show "status (fst (updatePost u postID t b l c ok db)) = 404"
    and "snd (updatePost u postID t b l c ok db) = db"
    by (simp_all add: updatePost_missing)
next
  fix p
  assume "findByPk db postID = Some p \<and> UserId p \<noteq> u"
  then show "status (fst (updatePost u postID t b l c ok db)) = 401"
    and "snd (updatePost u postID t b l c ok db) = db"
    by (simp_all add: updatePost_other)
next
  fix p
  assume "findByPk db postID = Some p \<and> UserId p = u \<and> \<not> ok"
  then have "updatePost u postID t b l c ok db =
      (\<lparr>status = 500,
        data = Some (no_payload\<lparr>message := Some ''Could not update the post.''\<rparr>)\<rparr>, db)"
    using updatePost_failed [of db postID p u t b l c] by simp
  then show "status (fst (updatePost u postID t b l c ok db)) = 500"
    and "snd (updatePost u postID t b l c ok db) = db"
    by simp_all
next
  fix p
  assume h: "findByPk db postID = Some p \<and> UserId p = u \<and> ok"
  let ?q = "p\<lparr>title := or_string t (title p), body := or_string b (body p),
              location := or_string l (location p),
              capacity := or_number c (capacity p)\<rparr>"
  from h have found: "findByPk db postID = Some p" and own: "UserId p = u" and ok: "ok = True"
    by simp_all
  have "fst (updatePost u postID t b l c ok db) =
          \<lparr>status = 200, data = Some (no_payload\<lparr>result := Some ?q\<rparr>)\<rparr>"
    using updatePost_saved(1) [OF found own] by (simp add: ok)
  moreover have "findByPk (snd (updatePost u postID t b l c ok db)) postID = Some ?q"
    using updatePost_saved(2) [OF found own] by (simp add: ok)
  moreover have "\<forall>s. t = Some s \<and> s \<noteq> [] \<longrightarrow> title ?q = s"
    by (simp add: or_string_def)
  moreover have "t = None \<or> t = Some [] \<longrightarrow> title ?q = title p"
    by (auto simp: or_string_simps)
  moreover have "\<forall>s. b = Some s \<and> s \<noteq> [] \<longrightarrow> body ?q = s"
    by (simp add: or_string_def)
  moreover have "b = None \<or> b = Some [] \<longrightarrow> body ?q = body p"
    by (auto simp: or_string_simps)
  moreover have "\<forall>s. l = Some s \<and> s \<noteq> [] \<longrightarrow> location ?q = s"
    by (simp add: or_string_def)
  moreover have "l = None \<or> l = Some [] \<longrightarrow> location ?q = location p"
    by (auto simp: or_string_simps)
  moreover have "\<forall>n. c = Some n \<and> n \<noteq> 0 \<longrightarrow> capacity ?q = n"
    by (simp add: or_number_def)
  moreover have "c = None \<longrightarrow> capacity ?q = capacity p"
    by (simp add: or_number_simps)
  moreover have "id_row ?q = id_row p \<and> feedbackScore ?q = feedbackScore p
      \<and> UserId ?q = UserId p \<and> createdAt ?q = createdAt p"
    by simp
  ultimately show "\<exists>q. fst (updatePost u postID t b l c ok db) =
                 \<lparr>status = 200, data = Some (no_payload\<lparr>result := Some q\<rparr>)\<rparr>
             \<and> findByPk (snd (updatePost u postID t b l c ok db)) postID = Some q
             \<and> (\<forall>s. t = Some s \<and> s \<noteq> [] \<longrightarrow> title q = s)
             \<and> (t = None \<or> t = Some [] \<longrightarrow> title q = title p)
             \<and> (\<forall>s. b = Some s \<and> s \<noteq> [] \<longrightarrow> body q = s)
             \<and> (b = None \<or> b = Some [] \<longrightarrow> body q = body p)
             \<and> (\<forall>s. l = Some s \<and> s \<noteq> [] \<longrightarrow> location q = s)
             \<and> (l = None \<or> l = Some [] \<longrightarrow> location q = location p)
             \<and> (\<forall>n. c = Some n \<and> n \<noteq> 0 \<longrightarrow> capacity q = n)
             \<and> (c = None \<longrightarrow> capacity q = capacity p)
             \<and> id_row q = id_row p \<and> feedbackScore q = feedbackScore p
             \<and> UserId q = UserId p \<and> createdAt q = createdAt p"
    by blast
qed

theorem updatePost_404_401_500_200_merged_witness:
  "findByPk sample_db ''p1'' = Some sample_post \<and> UserId sample_post = ''alice''
   \<and> findByPk sample_db ''p9'' = None
   \<and> (\<exists>q. fst (updatePost ''alice'' ''p1'' (Some ''Hike'') None (Some '''') (Some 8) True
                  sample_db) =
             \<lparr>status = 200, data = Some (no_payload\<lparr>result := Some q\<rparr>)\<rparr>
          \<and> findByPk (snd (updatePost ''alice'' ''p1'' (Some ''Hike'') None (Some '''') (Some 8)
                              True sample_db)) ''p1'' = Some q
          \<and> title q = ''Hike'' \<and> body q = body sample_post
          \<and> location q = location sample_post \<and> capacity q = 8)
   \<and> status (fst (updatePost ''alice'' ''p1'' (Some ''Hike'') None (Some '''') (Some 8) False
                     sample_db)) = 500
   \<and> status (fst (updatePost ''bob'' ''p1'' (Some ''Hike'') None (Some '''') (Some 8) True
                     sample_db)) = 401
   \<and> status (fst (updatePost ''alice'' ''p9'' (Some ''Hike'') None (Some '''') (Some 8) True
                     sample_db)) = 404"
proof -
  have found: "findByPk sample_db ''p1'' = Some sample_post"
    by (simp add: findByPk_def sample_db_def sample_post_def)
  have own: "UserId sample_post = ''alice''"
    by (simp add: sample_post_def)
  have absent: "findByPk sample_db ''p9'' = None"
    by (simp add: findByPk_def sample_db_def sample_post_def)
  have saved: "\<exists>q. fst (updatePost ''alice'' ''p1'' (Some ''Hike'') None (Some '''') (Some 8) True
                  sample_db) =
             \<lparr>status = 200, data = Some (no_payload\<lparr>result := Some q\<rparr>)\<rparr>
          \<and> findByPk (snd (updatePost ''alice'' ''p1'' (Some ''Hike'') None (Some '''') (Some 8)
                              True sample_db)) ''p1'' = Some q
          \<and> title q = ''Hike'' \<and> body q = body sample_post
          \<and> location q = location sample_post \<and> capacity q = 8"
    using found own
      updatePost_404_401_500_200_merged [where db = sample_db and postID = "''p1''"
        and u = "''alice''" and t = "Some ''Hike''" and b = None and l = "Some ''''"
        and c = "Some 8" and ok = True]
    by auto
  have failed: "status (fst (updatePost ''alice'' ''p1'' (Some ''Hike'') None (Some '''') (Some 8)
                     False sample_db)) = 500"
    using found own
      updatePost_404_401_500_200_merged [where db = sample_db and postID = "''p1''"
        and u = "''alice''" and t = "Some ''Hike''" and b = None and l = "Some ''''"
        and c = "Some 8" and ok = False]
    by auto
  have refused: "status (fst (updatePost ''bob'' ''p1'' (Some ''Hike'') None (Some '''') (Some 8)
                     True sample_db)) = 401"
    using found own
      updatePost_404_401_500_200_merged [where db = sample_db and postID = "''p1''"
        and u = "''bob''" and t = "Some ''Hike''" and b = None and l = "Some ''''"
        and c = "Some 8" and ok = True]
    by auto
  have missing: "status (fst (updatePost ''alice'' ''p9'' (Some ''Hike'') None (Some '''') (Some 8)
                     True sample_db)) = 404"
    using absent
      updatePost_404_401_500_200_merged [where db = sample_db and postID = "''p9''"
        and u = "''alice''" and t = "Some ''Hike''" and b = None and l = "Some ''''"
        and c = "Some 8" and ok = True]
    by auto
  from found own absent saved failed refused missing show ?thesis
    by blast
qed

section \<open>An update that supplies nothing\<close>

text \<open>
  Claim C6, as stated, at a concrete call: the post exists and is owned by the caller,
  no optional field is supplied, and the save throws. The answer is 500, not 200.
\<close>

theorem updatePost_no_fields_save_throws_counterexample:
  "findByPk sample_db ''p1'' = Some sample_post \<and> UserId sample_post = ''alice''
   \<and> status (fst (updatePost ''alice'' ''p1'' None None None None False sample_db)) = 500"
  by (simp add: updatePost_def getPost_def findByPk_def save_def or_string_def or_number_def
      sample_db_def sample_post_def Let_def)

text \<open>
  Claim C6, amended. For every existing post owned by the caller, \<open>updatePost\<close> with
  none of \<open>title\<close>, \<open>body\<close>, \<open>location\<close>, \<open>capacity\<close> supplied returns status 200 with the
  post as it was in \<open>data.result\<close> when the save succeeds, and status 500 when the save
  throws; in both cases the post stored under the id is equal in every field to its
  prior value.
\<close>

theorem updatePost_no_fields_unchanged:
  assumes "findByPk db postID = Some p" and "UserId p = u"
  shows "(ok \<longrightarrow> fst (updatePost u postID None None None None ok db) =
                  \<lparr>status = 200, data = Some (no_payload\<lparr>result := Some p\<rparr>)\<rparr>)
         \<and> (\<not> ok \<longrightarrow> status (fst (updatePost u postID None None None None ok db)) = 500)
         \<and> findByPk (snd (updatePost u postID None None None None ok db)) postID = Some p"
proof (cases ok)
  case True
  have same: "p\<lparr>title := or_string None (title p), body := or_string None (body p),
                location := or_string None (location p),
                capacity := or_number None (capacity p)\<rparr> = p"
    by (simp add: or_string_simps or_number_simps)
  from updatePost_saved [OF assms, of None None None None] True show ?thesis
    by (simp add: same)
next
  case False
  with updatePost_failed [OF assms, of None None None None] assms(1) show ?thesis
    by simp
qed

theorem updatePost_no_fields_unchanged_witness:
  "findByPk sample_db ''p1'' = Some sample_post \<and> UserId sample_post = ''alice''
   \<and> fst (updatePost ''alice'' ''p1'' None None None None True sample_db) =
       \<lparr>status = 200, data = Some (no_payload\<lparr>result := Some sample_post\<rparr>)\<rparr>
   \<and> findByPk (snd (updatePost ''alice'' ''p1'' None None None None True sample_db)) ''p1'' =
       Some sample_post
   \<and> status (fst (updatePost ''alice'' ''p1'' None None None None False sample_db)) = 500
   \<and> findByPk (snd (updatePost ''alice'' ''p1'' None None None None False sample_db)) ''p1'' =
       Some sample_post"
proof -
  have found: "findByPk sample_db ''p1'' = Some sample_post"
    by (simp add: findByPk_def sample_db_def sample_post_def)
  have own: "UserId sample_post = ''alice''"
    by (simp add: sample_post_def)
  from updatePost_no_fields_unchanged [OF found own, of True]
    updatePost_no_fields_unchanged [OF found own, of False] found own
  show ?thesis by simp
qed

section \<open>Rounding of scores\<close>

lemma ulp_small: "m < 9007199254740992 \<Longrightarrow> ulp m = 1"
  by (simp add: ulp.simps)

lemma ulp_next: "9007199254740992 \<le> m \<Longrightarrow> m < 18014398509481984 \<Longrightarrow> ulp m = 2"
  by (subst ulp.simps) (simp add: ulp_small)

lemma round_half_even_top: "round_half_even 9007199254740992 = 9007199254740992"
  by (simp add: round_half_even_def Let_def ulp_next)

lemma round_half_even_exact:
  assumes "m \<le> 9007199254740992"
  shows "round_half_even m = m"
proof (cases "m < 9007199254740992")
  case True
  then show ?thesis
    by (simp add: round_half_even_def ulp_small Let_def)
next
  case False
  with assms have "m = 9007199254740992"
    by linarith
  then show ?thesis
    by (simp only: round_half_even_top)
qed

lemma double_of_int_exact:
  assumes "\<bar>n\<bar> \<le> 9007199254740992"
  shows "double_of_int n = n"
proof -
  from assms have "nat \<bar>n\<bar> \<le> 9007199254740992"
    by linarith
  then have "round_half_even (nat \<bar>n\<bar>) = nat \<bar>n\<bar>"
    by (rule round_half_even_exact)
  then show ?thesis
    by (simp add: double_of_int_def mult_sgn_abs)
qed

lemma double_of_int_above_top: "double_of_int 9007199254740993 = 9007199254740992"
  by (simp add: double_of_int_def round_half_even_def Let_def ulp_next)

section \<open>Voting\<close>

lemma vote_saved:
  assumes "findByPk db k = Some p"
  shows "fst (vote k a True db) =
           \<lparr>status = 204,
            data = Some (no_payload
              \<lparr>result := Some (p\<lparr>feedbackScore := double_of_int (feedbackScore p + a)\<rparr>)\<rparr>)\<rparr>"
    and "findByPk (snd (vote k a True db)) k =
           Some (p\<lparr>feedbackScore := double_of_int (feedbackScore p + a)\<rparr>)"
proof -
  let ?q = "p\<lparr>feedbackScore := double_of_int (feedbackScore p + a)\<rparr>"
  have run: "vote k a True db =
      (\<lparr>status = 204, data = Some (no_payload\<lparr>result := Some ?q\<rparr>)\<rparr>,
       db\<lparr>table := map (\<lambda>r. if id_row r = id_row ?q then ?q else r) (table db)\<rparr>)"
    using assms by (simp add: vote_def getPost_found save_def Let_def)
  show "fst (vote k a True db) =
          \<lparr>status = 204, data = Some (no_payload\<lparr>result := Some ?q\<rparr>)\<rparr>"
    by (simp add: run)
  have key: "id_row ?q = k"
    using findByPk_id [OF assms] by simp
  have saved: "save True ?q db =
      Some (db\<lparr>table := map (\<lambda>r. if id_row r = id_row ?q then ?q else r) (table db)\<rparr>)"
    by (simp add: save_def)
  show "findByPk (snd (vote k a True db)) k = Some ?q"
    using findByPk_save [OF assms key saved] by (simp add: run)
qed

lemma vote_not_saved:
  "status (fst (vote k a False db)) \<noteq> 204"
  by (simp add: vote_def getPost_def vote_failed_def save_def Let_def split: option.splits)

lemma vote_missing:
  "findByPk db k = None \<Longrightarrow> status (fst (vote k a ok db)) = 404"
  by (simp add: vote_def getPost_missing Let_def)

text \<open>
  Claim C4, as stated, at a concrete post: the stored \<open>feedbackScore\<close> is
  \<open>2^53 = 9007199254740992\<close>. Both votes return 204, so both saves succeeded, but the
  sum \<open>2^53 + 1\<close> is not a double and rounds back to \<open>2^53\<close>, and the vote down then
  leaves \<open>2^53 - 1\<close>.
\<close>

theorem vote_up_then_down_at_2_53_counterexample:
  "map_option feedbackScore (findByPk sample_big_db ''p1'') = Some 9007199254740992
   \<and> status (fst (vote ''p1'' 1 True sample_big_db)) = 204
   \<and> status (fst (vote ''p1'' (- 1) True (snd (vote ''p1'' 1 True sample_big_db)))) = 204
   \<and> map_option feedbackScore
       (findByPk (snd (vote ''p1'' (- 1) True (snd (vote ''p1'' 1 True sample_big_db)))) ''p1'')
       = Some 9007199254740991"
proof -
  let ?p = "sample_post\<lparr>feedbackScore := 9007199254740992\<rparr>"
  have found: "findByPk sample_big_db ''p1'' = Some ?p"
    by (simp add: findByPk_def sample_big_db_def sample_db_def sample_post_def)
  have up: "findByPk (snd (vote ''p1'' 1 True sample_big_db)) ''p1'' = Some ?p"
    using vote_saved(2) [OF found, of 1] by (simp add: double_of_int_above_top)
  have "double_of_int (9007199254740992 + - 1) = 9007199254740991"
    by (simp add: double_of_int_exact)
  then have down:
    "findByPk (snd (vote ''p1'' (- 1) True (snd (vote ''p1'' 1 True sample_big_db)))) ''p1'' =
       Some (sample_post\<lparr>feedbackScore := 9007199254740991\<rparr>)"
    using vote_saved(2) [OF up, of "- 1"] by simp
  show ?thesis
    using found vote_saved(1) [OF found, of 1] vote_saved(1) [OF up, of "- 1"] down
    by simp
qed

text \<open>
  Claim C4, amended. For every post whose \<open>feedbackScore\<close> \<open>s\<close> is a safe integer,
  \<open>|s| \<le> 2^53 - 1 = 9007199254740991\<close>: a \<open>vote\<close> of amount 1 or -1 whose save succeeds
  returns 204 and changes \<open>feedbackScore\<close> by exactly the given amount, leaving the
  other fields alone; so \<open>vote\<close> with amount 1 followed by \<open>vote\<close> with amount -1 on
  that post, both saves succeeding, leaves the stored post, and with it
  \<open>feedbackScore\<close>, equal to what it was.
\<close>

theorem vote_up_then_down_restores_feedbackScore:
  assumes "findByPk db postID = Some p" and "\<bar>feedbackScore p\<bar> \<le> 9007199254740991"
  shows "status (fst (vote postID amount True db)) = 204
         \<and> (amount = 1 \<or> amount = - 1
              \<longrightarrow> findByPk (snd (vote postID amount True db)) postID =
                    Some (p\<lparr>feedbackScore := feedbackScore p + amount\<rparr>)
                \<and> data (fst (vote postID amount True db)) =
                    Some (no_payload
                      \<lparr>result := Some (p\<lparr>feedbackScore := feedbackScore p + amount\<rparr>)\<rparr>))
         \<and> status (fst (vote postID (- 1) True (snd (vote postID 1 True db)))) = 204
         \<and> findByPk (snd (vote postID (- 1) True (snd (vote postID 1 True db)))) postID = Some p
         \<and> map_option feedbackScore
             (findByPk (snd (vote postID (- 1) True (snd (vote postID 1 True db)))) postID) =
             Some (feedbackScore p)"
proof -
  have exact: "double_of_int (feedbackScore p + a) = feedbackScore p + a"
    if "a = 1 \<or> a = - 1" for a
  proof -
    from that assms(2) have "\<bar>feedbackScore p + a\<bar> \<le> 9007199254740992"
      by linarith
    then show ?thesis
      by (rule double_of_int_exact)
  qed
  have up: "findByPk (snd (vote postID 1 True db)) postID =
      Some (p\<lparr>feedbackScore := feedbackScore p + 1\<rparr>)"
    using vote_saved(2) [OF assms(1), of 1] exact [of 1] by simp
  have "double_of_int (feedbackScore (p\<lparr>feedbackScore := feedbackScore p + 1\<rparr>) + (- 1)) =
      feedbackScore p"
    using assms(2) by (simp add: double_of_int_exact)
  then have restored:
    "p\<lparr>feedbackScore := feedbackScore p + 1\<rparr>
      \<lparr>feedbackScore :=
         double_of_int (feedbackScore (p\<lparr>feedbackScore := feedbackScore p + 1\<rparr>) + (- 1))\<rparr> = p"
    by simp
  have down: "findByPk (snd (vote postID (- 1) True (snd (vote postID 1 True db)))) postID = Some p"
    using vote_saved(2) [OF up, of "- 1"] by (simp only: restored)
  have first: "status (fst (vote postID amount True db)) = 204"
    by (simp add: vote_saved(1) [OF assms(1)])
  have step: "amount = 1 \<or> amount = - 1
      \<longrightarrow> findByPk (snd (vote postID amount True db)) postID =
            Some (p\<lparr>feedbackScore := feedbackScore p + amount\<rparr>)
        \<and> data (fst (vote postID amount True db)) =
            Some (no_payload
              \<lparr>result := Some (p\<lparr>feedbackScore := feedbackScore p + amount\<rparr>)\<rparr>)"
    using vote_saved [OF assms(1), of amount] exact [of amount] by simp
  have second: "status (fst (vote postID (- 1) True (snd (vote postID 1 True db)))) = 204"
    by (simp add: vote_saved(1) [OF up])
  from first step second down show ?thesis
    by simp
qed

theorem vote_up_then_down_restores_feedbackScore_witness:
  "findByPk sample_db ''p1'' = Some sample_post
   \<and> \<bar>feedbackScore sample_post\<bar> \<le> 9007199254740991
   \<and> status (fst (vote ''p1'' 1 True sample_db)) = 204
   \<and> map_option feedbackScore (findByPk (snd (vote ''p1'' 1 True sample_db)) ''p1'') = Some 4
   \<and> map_option feedbackScore
       (findByPk (snd (vote ''p1'' (- 1) True (snd (vote ''p1'' 1 True sample_db)))) ''p1'') =
       Some 3"
proof -
  have found: "findByPk sample_db ''p1'' = Some sample_post"
    by (simp add: findByPk_def sample_db_def sample_post_def)
  have score: "feedbackScore sample_post = 3"
    by (simp add: sample_post_def)
  have safe: "\<bar>feedbackScore sample_post\<bar> \<le> 9007199254740991"
    by (simp add: score)
  from vote_up_then_down_restores_feedbackScore [OF found safe, of 1] found score safe
  show ?thesis by simp
qed

section \<open>Responses with status 204\<close>

text \<open>
  Claim C7, as stated, at a concrete call: a \<open>vote\<close> on an existing post whose save
  succeeds returns status 204 and its \<open>data\<close> holds a \<open>result\<close>, the post with the new
  score.
\<close>

theorem vote_204_carries_result_counterexample:
  "fst (vote ''p1'' 1 True sample_db) =
     \<lparr>status = 204,
      data = Some (no_payload\<lparr>result := Some (sample_post\<lparr>feedbackScore := 4\<rparr>)\<rparr>)\<rparr>"
proof -
  have found: "findByPk sample_db ''p1'' = Some sample_post"
    by (simp add: findByPk_def sample_db_def sample_post_def)
  have "double_of_int (feedbackScore sample_post + 1) = 4"
    by (simp add: double_of_int_exact sample_post_def)
  with vote_saved(1) [OF found, of 1] show ?thesis
    by simp
qed

text \<open>
  Claim C7, amended. Whenever \<open>deletePost\<close> returns status 204, its response has no
  \<open>data\<close> at all. Whenever \<open>vote\<close> returns status 204, the post was found and its
  \<open>data\<close> holds exactly the updated post in \<open>result\<close>, that is the loaded post with
  \<open>feedbackScore\<close> replaced by the (double) sum of the old score and the amount, which
  is also the row now stored under the id, and holds no \<open>message\<close> and no \<open>count\<close>. No
  other method of the controller returns status 204.
\<close>

theorem status_204_bodies:
  "(status (fst (deletePost userId postID db)) = 204
      \<longrightarrow> data (fst (deletePost userId postID db)) = None)
   \<and> (status (fst (vote postID amount ok db)) = 204
      \<longrightarrow> (\<exists>p. findByPk db postID = Some p
             \<and> data (fst (vote postID amount ok db)) =
                 Some \<lparr>result =
                         Some (p\<lparr>feedbackScore := double_of_int (feedbackScore p + amount)\<rparr>),
                       count = None, message = None\<rparr>
             \<and> findByPk (snd (vote postID amount ok db)) postID =
                 Some (p\<lparr>feedbackScore := double_of_int (feedbackScore p + amount)\<rparr>))
        \<and> (\<exists>d r. data (fst (vote postID amount ok db)) = Some d
               \<and> result d = Some r \<and> message d = None))
   \<and> status (getComments postID limit offset db) \<noteq> 204
   \<and> status (getComment postID userId db) \<noteq> 204
   \<and> status (fst (createPost userId t b l c ins db)) \<noteq> 204
   \<and> status (fst (updatePost userId postID t b l c ok db)) \<noteq> 204"
proof (intro conjI impI)
  assume "status (fst (deletePost userId postID db)) = 204"
  then show "data (fst (deletePost userId postID db)) = None"
    by (auto simp: deletePost_def split: option.splits if_splits)
next
  assume h: "status (fst (vote postID amount ok db)) = 204"
  have "findByPk db postID \<noteq> None"
  proof
    assume "findByPk db postID = None"
    then have "status (fst (vote postID amount ok db)) = 404"
      by (rule vote_missing)
    with h show False by simp
  qed
  then obtain p where found: "findByPk db postID = Some p"
    by auto
  have ok: "ok = True"
    using h vote_not_saved [of postID amount db] by (cases ok) simp_all
  let ?q = "p\<lparr>feedbackScore := double_of_int (feedbackScore p + amount)\<rparr>"
  have body: "data (fst (vote postID amount ok db)) =
      Some \<lparr>result = Some ?q, count = None, message = None\<rparr>"
    using vote_saved(1) [OF found, of amount] by (simp add: ok no_payload_def)
  have stored: "findByPk (snd (vote postID amount ok db)) postID = Some ?q"
    using vote_saved(2) [OF found, of amount] by (simp add: ok)
  from found body stored
  show "\<exists>p. findByPk db postID = Some p
           \<and> data (fst (vote postID amount ok db)) =
               Some \<lparr>result =
                       Some (p\<lparr>feedbackScore := double_of_int (feedbackScore p + amount)\<rparr>),
                     count = None, message = None\<rparr>
           \<and> findByPk (snd (vote postID amount ok db)) postID =
               Some (p\<lparr>feedbackScore := double_of_int (feedbackScore p + amount)\<rparr>)"
    by blast
  from body
  show "\<exists>d r. data (fst (vote postID amount ok db)) = Some d
      \<and> result d = Some r \<and> message d = None"
    by simp
next
  show "status (getComments postID limit offset db) \<noteq> 204"
    by (simp add: getComments_def split: option.splits)
next
  show "status (getComment postID userId db) \<noteq> 204"
    by (simp add: getComment_def split: option.splits)
next
  show "status (fst (createPost userId t b l c ins db)) \<noteq> 204"
    by (simp add: createPost_def split: option.splits prod.splits)
next
  show "status (fst (updatePost userId postID t b l c ok db)) \<noteq> 204"
    by (simp add: updatePost_def Let_def split: option.splits)
qed

theorem status_204_bodies_witness:
  "status (fst (deletePost ''alice'' ''p1'' sample_db)) = 204
   \<and> data (fst (deletePost ''alice'' ''p1'' sample_db)) = None
   \<and> status (fst (vote ''p1'' 1 True sample_db)) = 204
   \<and> (\<exists>p. findByPk sample_db ''p1'' = Some p
          \<and> data (fst (vote ''p1'' 1 True sample_db)) =
              Some \<lparr>result = Some (p\<lparr>feedbackScore := double_of_int (feedbackScore p + 1)\<rparr>),
                    count = None, message = None\<rparr>
          \<and> findByPk (snd (vote ''p1'' 1 True sample_db)) ''p1'' =
              Some (p\<lparr>feedbackScore := double_of_int (feedbackScore p + 1)\<rparr>))"
proof -
  have found: "findByPk sample_db ''p1'' = Some sample_post"
    by (simp add: findByPk_def sample_db_def sample_post_def)
  have deleted: "status (fst (deletePost ''alice'' ''p1'' sample_db)) = 204"
    by (simp add: deletePost_def findOne_def sample_db_def sample_post_def)
  have voted: "status (fst (vote ''p1'' 1 True sample_db)) = 204"
    by (simp add: vote_saved(1) [OF found])
  from deleted voted
    status_204_bodies [where userId = "''alice''" and postID = "''p1''" and db = sample_db
      and amount = 1 and ok = True]
  show ?thesis by blast
qed

section \<open>Posts that do not exist\<close>

text \<open>
  Claim C8. For every post id that does not exist in the store, \<open>getComment\<close> returns
  status 404 with a message and with no \<open>result\<close> in the response data, and so do the
  lookup paths of \<open>getComments\<close> and of \<open>deletePost\<close>, which also leaves the database as
  it was.
\<close>

theorem missing_post_404_without_result:
  assumes "findByPk db postID = None"
  shows "status (getComment postID userID db) = 404
         \<and> result (data (getComment postID userID db)) = None
         \<and> message (data (getComment postID userID db)) =
             Some (''Post '' @ postID @ '' could not be found'')
         \<and> status (getComments postID limit offset db) = 404
         \<and> result (data (getComments postID limit offset db)) = None
         \<and> message (data (getComments postID limit offset db)) =
             Some (''Post '' @ postID @ '' could not be found'')
         \<and> status (fst (deletePost userID postID db)) = 404
         \<and> (\<exists>d. data (fst (deletePost userID postID db)) = Some d \<and> result d = None
                \<and> message d = Some (''Post '' @ postID @ '' could not be deleted.''))
         \<and> snd (deletePost userID postID db) = db"
  using assms
  by (simp add: getComment_def findByPk_User_def getComments_def findByPk_options_def
      deletePost_def findOne_findByPk no_payload_def)

theorem missing_post_404_without_result_witness:
  "findByPk sample_db ''p9'' = None
   \<and> status (getComment ''p9'' ''alice'' sample_db) = 404
   \<and> result (data (getComment ''p9'' ''alice'' sample_db)) = None
   \<and> status (getComments ''p9'' 10 0 sample_db) = 404
   \<and> result (data (getComments ''p9'' 10 0 sample_db)) = None
   \<and> status (fst (deletePost ''alice'' ''p9'' sample_db)) = 404
   \<and> snd (deletePost ''alice'' ''p9'' sample_db) = sample_db"
proof -
  have absent: "findByPk sample_db ''p9'' = None"
    by (simp add: findByPk_def sample_db_def sample_post_def)
  from missing_post_404_without_result [OF absent, of "''alice''" 10 0] absent
  show ?thesis by simp
qed

section \<open>Listing with a capped limit\<close>

lemma descending_sort_key:
  "sorted_wrt (\<lambda>x y. createdAt y \<le> createdAt x) (sort_key (\<lambda>c. - createdAt c) xs)"
proof -
  have "sorted (map (\<lambda>c. - createdAt c) (sort_key (\<lambda>c. - createdAt c) xs))"
    by (rule sorted_sort_key)
  then show ?thesis
    by (simp add: sorted_map)
qed

lemma getComments_found:
  assumes "findByPk db postID = Some p"
  shows "getComments postID limit offset db =
           \<lparr>status = 200,
            data = no_payload
              \<lparr>result := Some (take (nat (min limit 50))
                                 (drop (nat offset)
                                    (sort_key (\<lambda>c. - createdAt c) (associated db postID)))),
               count := Some (int (length (associated db postID)))\<rparr>\<rparr>"
  using assms
  by (simp add: getComments_def findByPk_options_def getComments_options_def apply_order_def
      MAX_RESULTS_def min_def)

text \<open>
  Claim C5. For every call to \<open>getComments\<close>, the limit passed to the underlying
  query is \<open>min limit 50\<close>, the order passed is creation time descending and the
  offset passed is the given one. So when the parent record exists the rows returned
  are the associated rows in descending order of creation time, with the offset
  applied and cut at \<open>min limit 50\<close>; a request with a limit greater than 50 returns at
  most 50 rows.
\<close>

theorem getComments_limit_capped_at_50:
  "opt_limit (getComments_options limit offset) = min limit 50
   \<and> opt_order (getComments_options limit offset) = [(''createdAt'', DESC)]
   \<and> opt_offset (getComments_options limit offset) = offset
   \<and> (\<forall>p. findByPk db postID = Some p
      \<longrightarrow> (\<exists>rows. status (getComments postID limit offset db) = 200
                 \<and> result (data (getComments postID limit offset db)) = Some rows
                 \<and> rows = take (nat (min limit 50))
                            (drop (nat offset)
                               (sort_key (\<lambda>c. - createdAt c) (associated db postID)))
                 \<and> sorted_wrt (\<lambda>x y. createdAt y \<le> createdAt x) rows
                 \<and> (limit > 50 \<longrightarrow> length rows \<le> 50)))"
proof (intro conjI allI impI)
  show "opt_limit (getComments_options limit offset) = min limit 50"
    by (simp add: getComments_options_def MAX_RESULTS_def min_def)
  show "opt_order (getComments_options limit offset) = [(''createdAt'', DESC)]"
    by (simp add: getComments_options_def)
  show "opt_offset (getComments_options limit offset) = offset"
    by (simp add: getComments_options_def)
next
  fix p
  assume found: "findByPk db postID = Some p"
  let ?rows = "take (nat (min limit 50))
                 (drop (nat offset) (sort_key (\<lambda>c. - createdAt c) (associated db postID)))"
  have "status (getComments postID limit offset db) = 200"
    by (simp add: getComments_found [OF found])
  moreover have "result (data (getComments postID limit offset db)) = Some ?rows"
    by (simp add: getComments_found [OF found])
  moreover have "sorted_wrt (\<lambda>x y. createdAt y \<le> createdAt x) ?rows"
    by (intro sorted_wrt_take sorted_wrt_drop descending_sort_key)
  moreover have "limit > 50 \<longrightarrow> length ?rows \<le> 50"
    by simp
  ultimately show "\<exists>rows. status (getComments postID limit offset db) = 200
                 \<and> result (data (getComments postID limit offset db)) = Some rows
                 \<and> rows = take (nat (min limit 50))
                            (drop (nat offset)
                               (sort_key (\<lambda>c. - createdAt c) (associated db postID)))
                 \<and> sorted_wrt (\<lambda>x y. createdAt y \<le> createdAt x) rows
                 \<and> (limit > 50 \<longrightarrow> length rows \<le> 50)"
    by blast
qed

theorem getComments_limit_capped_at_50_witness:
  "findByPk sample_db ''p1'' = Some sample_post
   \<and> opt_limit (getComments_options 70 1) = 50
   \<and> status (getComments ''p1'' 70 1 sample_db) = 200
   \<and> result (data (getComments ''p1'' 70 1 sample_db)) =
       Some [sample_reply ''c3'' 12, sample_reply ''c1'' 11]
   \<and> length [sample_reply ''c3'' 12, sample_reply ''c1'' 11] \<le> 50"
proof -
  have found: "findByPk sample_db ''p1'' = Some sample_post"
    by (simp add: findByPk_def sample_db_def sample_post_def)
  have rows: "take (nat (min 70 50))
                (drop (nat 1) (sort_key (\<lambda>c. - createdAt c) (associated sample_db ''p1''))) =
              [sample_reply ''c3'' 12, sample_reply ''c1'' 11]"
    by (simp add: sample_db_def sample_reply_def)
  from getComments_limit_capped_at_50 [where limit = 70 and offset = 1 and db = sample_db
      and postID = "''p1''"] found rows
  show ?thesis by auto
qed

end
